theory Spec2Isabelle
  imports Main
begin

section \<open>The text repair applied to the engine's output\<close>

text \<open>
  Go strings are byte sequences; a \<^typ>\<open>string\<close> here is the list of those bytes.

  \<^verbatim>\<open>var spaceBeforeParenRegex = regexp.MustCompile(`(?m)([^\n\s])\s\(`)\<close>

  In Go's regular expressions (RE2 syntax) the Perl class \<^verbatim>\<open>\s\<close> is
  \<^verbatim>\<open>[\t\n\f\r ]\<close>. The flag \<^verbatim>\<open>(?m)\<close> changes the meaning of \<^verbatim>\<open>^\<close> and \<^verbatim>\<open>$\<close>
  only, and the pattern has neither.
\<close>

definition newline :: char where
  "newline = CHR 0x0A"

definition perlSpace :: "char \<Rightarrow> bool" where
  "perlSpace c = (c = CHR 0x09 \<or> c = CHR 0x0A \<or> c = CHR 0x0C \<or> c = CHR 0x0D \<or> c = CHR '' '')"

text \<open>
  \<^verbatim>\<open>([^\n\s])\s\(\<close> at the head of the remaining text: three bytes, the captured one no
  newline and not in \<^verbatim>\<open>\s\<close>, then one of \<^verbatim>\<open>\s\<close>, then the parenthesis. The class
  is ASCII, so on UTF-8 text the byte before the white space is the last byte of the
  captured rune and the bytes copied to the output are the same.
\<close>

definition spaceBeforeParenMatch :: "char \<Rightarrow> char \<Rightarrow> char \<Rightarrow> bool" where
  "spaceBeforeParenMatch c s p = ((c \<noteq> newline \<and> \<not> perlSpace c) \<and> perlSpace s \<and> p = CHR ''('')"

text \<open>
  \<^verbatim>\<open>spaceBeforeParenRegex.ReplaceAllString(formatted, "$1(")\<close>: the matches are taken
  leftmost first and do not overlap; each is replaced by its captured byte and a
  parenthesis, and the search goes on after the match.
\<close>

fun ReplaceAllString :: "string \<Rightarrow> string" where
  "ReplaceAllString (c # s # p # rest) =
     (if spaceBeforeParenMatch c s p then c # CHR ''('' # ReplaceAllString rest
      else c # ReplaceAllString (s # p # rest))"
| "ReplaceAllString src = src"

section \<open>The option model\<close>

text \<open>
  The enumerations are Go string types with named constants, so a field of such a type
  holds any string and its zero value is the empty string.
\<close>

type_synonym CaseOption = string

definition CaseOptionPreserve :: CaseOption where "CaseOptionPreserve = ''preserve''"
definition CaseOptionUpper :: CaseOption where "CaseOptionUpper = ''upper''"
definition CaseOptionLower :: CaseOption where "CaseOptionLower = ''lower''"

type_synonym LogicalOperatorNewlineOption = string

definition LogicalOperatorNewlineBefore :: LogicalOperatorNewlineOption where
  "LogicalOperatorNewlineBefore = ''before''"
definition LogicalOperatorNewlineAfter :: LogicalOperatorNewlineOption where
  "LogicalOperatorNewlineAfter = ''after''"

type_synonym IndentStyleOption = string

definition IndentStyleStandard :: IndentStyleOption where "IndentStyleStandard = ''standard''"
definition IndentStyleTabularLeft :: IndentStyleOption where "IndentStyleTabularLeft = ''tabularLeft''"
definition IndentStyleTabularRight :: IndentStyleOption where "IndentStyleTabularRight = ''tabularRight''"

type_synonym LanguageOption = string

definition LanguageSQL :: LanguageOption where "LanguageSQL = ''sql''"
definition LanguageBigQuery :: LanguageOption where "LanguageBigQuery = ''bigquery''"
definition LanguageDB2 :: LanguageOption where "LanguageDB2 = ''db2''"
definition LanguageDB2i :: LanguageOption where "LanguageDB2i = ''db2i''"
definition LanguageDuckDB :: LanguageOption where "LanguageDuckDB = ''duckdb''"
definition LanguageHive :: LanguageOption where "LanguageHive = ''hive''"
definition LanguageMariaDB :: LanguageOption where "LanguageMariaDB = ''mariadb''"
definition LanguageMySQL :: LanguageOption where "LanguageMySQL = ''mysql''"
definition LanguageTiDB :: LanguageOption where "LanguageTiDB = ''tidb''"
definition LanguageN1QL :: LanguageOption where "LanguageN1QL = ''n1ql''"
definition LanguagePLSQL :: LanguageOption where "LanguagePLSQL = ''plsql''"
definition LanguagePostgreSQL :: LanguageOption where "LanguagePostgreSQL = ''postgresql''"
definition LanguageRedshift :: LanguageOption where "LanguageRedshift = ''redshift''"
definition LanguageSingleStoreDB :: LanguageOption where "LanguageSingleStoreDB = ''singlestoredb''"
definition LanguageSnowflake :: LanguageOption where "LanguageSnowflake = ''snowflake''"
definition LanguageSpark :: LanguageOption where "LanguageSpark = ''spark''"
definition LanguageSQLite :: LanguageOption where "LanguageSQLite = ''sqlite''"
definition LanguageTransactSQL :: LanguageOption where "LanguageTransactSQL = ''transactsql''"
definition LanguageTSQL :: LanguageOption where "LanguageTSQL = ''tsql''"
definition LanguageTrino :: LanguageOption where "LanguageTrino = ''trino''"

text \<open>
  Go's \<^verbatim>\<open>int\<close> fields are \<^typ>\<open>int\<close>: the package does no arithmetic on them, so
  the width of the machine integer plays no part.
\<close>

record FormatOptions =
  DataTypeCase :: CaseOption
  DenseOperators :: bool
  ExpressionWidth :: int
  FunctionCase :: CaseOption
  IdentifierCase :: CaseOption
  IndentStyle :: IndentStyleOption
  KeywordCase :: CaseOption
  Language :: LanguageOption
  LinesBetweenQueries :: int
  LogicalOperatorNewline :: LogicalOperatorNewlineOption
  NewlineBeforeSemicolon :: bool
  TabWidth :: int
  UseTabs :: bool

definition DefaultFormatOptions :: FormatOptions where
  "DefaultFormatOptions = \<lparr>
     DataTypeCase = CaseOptionUpper,
     DenseOperators = False,
     ExpressionWidth = 80,
     FunctionCase = CaseOptionUpper,
     IdentifierCase = CaseOptionPreserve,
     IndentStyle = IndentStyleStandard,
     KeywordCase = CaseOptionUpper,
     Language = LanguageSQL,
     LinesBetweenQueries = 2,
     LogicalOperatorNewline = LogicalOperatorNewlineAfter,
     NewlineBeforeSemicolon = True,
     TabWidth = 4,
     UseTabs = False \<rparr>"

section \<open>Option serialization\<close>

text \<open>
  \<^verbatim>\<open>json.Marshal(options)\<close> is Go's \<^verbatim>\<open>encoding/json\<close>, which is not part of the
  repository; what follows is its documented behaviour on a flat struct of strings,
  booleans and integers whose fields all carry a \<^verbatim>\<open>json:"name,omitempty"\<close> tag: the
  fields are written in declaration order under the tag's name, a field holding
  \<^verbatim>\<open>false\<close>, \<^verbatim>\<open>0\<close> or a string of length 0 is left out, and strings are quoted
  and escaped (with HTML escaping, the default of \<^verbatim>\<open>Marshal\<close>).
\<close>

datatype jsonValue = JString string | JBool bool | JNumber int

fun isEmptyValue :: "jsonValue \<Rightarrow> bool" where
  "isEmptyValue (JString s) = (length s = 0)"
| "isEmptyValue (JBool b) = (b = False)"
| "isEmptyValue (JNumber n) = (n = 0)"

definition structFields :: "FormatOptions \<Rightarrow> (string \<times> jsonValue) list" where
  "structFields options =
     [(''dataTypeCase'', JString (DataTypeCase options)),
      (''denseOperators'', JBool (DenseOperators options)),
      (''expressionWidth'', JNumber (ExpressionWidth options)),
      (''functionCase'', JString (FunctionCase options)),
      (''identifierCase'', JString (IdentifierCase options)),
      (''indentStyle'', JString (IndentStyle options)),
      (''keywordCase'', JString (KeywordCase options)),
      (''language'', JString (Language options)),
      (''linesBetweenQueries'', JNumber (LinesBetweenQueries options)),
      (''logicalOperatorNewline'', JString (LogicalOperatorNewline options)),
      (''newlineBeforeSemicolon'', JBool (NewlineBeforeSemicolon options)),
      (''tabWidth'', JNumber (TabWidth options)),
      (''useTabs'', JBool (UseTabs options))]"

text \<open>The members of the JSON object: every field is \<^verbatim>\<open>omitempty\<close>.\<close>

definition objectMembers :: "FormatOptions \<Rightarrow> (string \<times> jsonValue) list" where
  "objectMembers options = filter (\<lambda>kv. \<not> isEmptyValue (snd kv)) (structFields options)"

definition dquote :: char where "dquote = CHR 0x22"
definition backslash :: char where "backslash = CHR 0x5C"

definition byte :: "char \<Rightarrow> nat" where
  "byte c = of_char c"

definition hex :: string where
  "hex = ''0123456789abcdef''"

text \<open>\<^verbatim>\<open>htmlSafeSet\<close>: the ASCII bytes written as they are.\<close>

definition htmlSafe :: "char \<Rightarrow> bool" where
  "htmlSafe c = (0x20 \<le> byte c \<and> byte c < 0x80 \<and> c \<noteq> dquote \<and> c \<noteq> backslash
                 \<and> c \<noteq> CHR ''<'' \<and> c \<noteq> CHR ''>'' \<and> c \<noteq> CHR ''&'')"

text \<open>
  The escape of an ASCII byte outside \<^verbatim>\<open>htmlSafeSet\<close>, as Go 1.22 and later write
  it (earlier versions write backspace and form feed as \<^verbatim>\<open>\u0008\<close> and \<^verbatim>\<open>\u000c\<close>).
\<close>

definition escapeByte :: "char \<Rightarrow> string" where
  "escapeByte c =
     (if c = backslash \<or> c = dquote then [backslash, c]
      else if c = CHR 0x08 then [backslash, CHR ''b'']
      else if c = CHR 0x0C then [backslash, CHR ''f'']
      else if c = CHR 0x0A then [backslash, CHR ''n'']
      else if c = CHR 0x0D then [backslash, CHR ''r'']
      else if c = CHR 0x09 then [backslash, CHR ''t'']
      else [backslash, CHR ''u'', CHR ''0'', CHR ''0'', hex ! (byte c div 16), hex ! (byte c mod 16)])"

text \<open>
  \<^verbatim>\<open>utf8.DecodeRuneInString\<close> on text whose first byte is not ASCII: the number of
  bytes of the rune encoded there, or 0 where Go returns \<^verbatim>\<open>RuneError\<close> of width 1.
\<close>

definition contByte :: "char \<Rightarrow> bool" where
  "contByte c = (0x80 \<le> byte c \<and> byte c \<le> 0xBF)"

definition runeWidth :: "string \<Rightarrow> nat" where
  "runeWidth s =
     (case s of [] \<Rightarrow> 0
      | s0 # rest \<Rightarrow>
         if byte s0 < 0x80 then 1
         else if byte s0 < 0xC2 \<or> 0xF4 < byte s0 then 0
         else
           let sz = (if byte s0 < 0xE0 then 2 else if byte s0 < 0xF0 then 3 else 4 :: nat);
               lo = (if byte s0 = 0xE0 then 0xA0 else if byte s0 = 0xF0 then 0x90 else 0x80);
               hi = (if byte s0 = 0xED then 0x9F else if byte s0 = 0xF4 then 0x8F else 0xBF)
           in if length s < sz then 0
              else if byte (rest ! 0) < lo \<or> hi < byte (rest ! 0) then 0
              else if sz \<le> 2 then 2
              else if \<not> contByte (rest ! 1) then 0
              else if sz \<le> 3 then 3
              else if \<not> contByte (rest ! 2) then 0
              else 4)"

text \<open>
  The string encoder. The repository pins no Go version, and the encoders differ on a
  byte that is not part of well-formed UTF-8: Go's current default build writes the
  replacement rune U+FFFD itself (the bytes EF BF BD) for each such byte, the classic
  encoder writes the six-byte escape \<^verbatim>\<open>\ufffd\<close>. The flag chooses the second.
\<close>

fun appendString :: "bool \<Rightarrow> string \<Rightarrow> string" where
  "appendString escapeInvalidUTF8 [] = []"
| "appendString escapeInvalidUTF8 (b # src) =
     (if byte b < 0x80 then
        (if htmlSafe b then [b] else escapeByte b) @ appendString escapeInvalidUTF8 src
      else
        let w = runeWidth (b # src) in
        if w = 0 then
          (if escapeInvalidUTF8 then backslash # ''ufffd'' else [CHR 0xEF, CHR 0xBF, CHR 0xBD])
          @ appendString escapeInvalidUTF8 src
        else if take w (b # src) = [CHR 0xE2, CHR 0x80, CHR 0xA8]
          then backslash # ''u2028'' @ appendString escapeInvalidUTF8 (drop (w - 1) src)
        else if take w (b # src) = [CHR 0xE2, CHR 0x80, CHR 0xA9]
          then backslash # ''u2029'' @ appendString escapeInvalidUTF8 (drop (w - 1) src)
        else take w (b # src) @ appendString escapeInvalidUTF8 (drop (w - 1) src))"

text \<open>\<^verbatim>\<open>strconv.AppendInt(b, v, 10)\<close>.\<close>

fun decimal :: "nat \<Rightarrow> string" where
  "decimal n = (if n < 10 then [hex ! n] else decimal (n div 10) @ [hex ! (n mod 10)])"

definition AppendInt :: "int \<Rightarrow> string" where
  "AppendInt v = (if v < 0 then CHR ''-'' # decimal (nat (- v)) else decimal (nat v))"

fun encodeValue :: "bool \<Rightarrow> jsonValue \<Rightarrow> string" where
  "encodeValue escapeInvalidUTF8 (JString s) = dquote # appendString escapeInvalidUTF8 s @ [dquote]"
| "encodeValue escapeInvalidUTF8 (JBool b) = (if b then ''true'' else ''false'')"
| "encodeValue escapeInvalidUTF8 (JNumber n) = AppendInt n"

definition encodeMember :: "bool \<Rightarrow> string \<times> jsonValue \<Rightarrow> string" where
  "encodeMember escapeInvalidUTF8 kv =
     dquote # fst kv @ [dquote] @ '':'' @ encodeValue escapeInvalidUTF8 (snd kv)"

fun joinComma :: "string list \<Rightarrow> string" where
  "joinComma [] = []"
| "joinComma [x] = x"
| "joinComma (x # y # ys) = x @ '','' @ joinComma (y # ys)"

datatype extError = ExtError string

text \<open>
  \<^verbatim>\<open>json.Marshal\<close> returns text and an error; on this struct no value is of a kind the
  encoder rejects. \<^verbatim>\<open>json_MarshalWith\<close> is the encoder of either generation,
  \<^verbatim>\<open>json_Marshal\<close> that of the default build.
\<close>

definition json_MarshalWith :: "bool \<Rightarrow> FormatOptions \<Rightarrow> extError + string" where
  "json_MarshalWith escapeInvalidUTF8 options =
     Inr (''{'' @ joinComma (map (encodeMember escapeInvalidUTF8) (objectMembers options)) @ ''}'')"

definition json_Marshal :: "FormatOptions \<Rightarrow> extError + string" where
  "json_Marshal options = json_MarshalWith False options"

section \<open>Errors and the script engine\<close>

text \<open>
  An \<^typ>\<open>extError\<close> is an error value made outside the package, by the script engine
  or the JSON encoder. Those packages cannot refer to this package's sentinel
  variables, so such a value is never one of the sentinels, and neither is an error
  that \<^verbatim>\<open>fmt.Errorf\<close> makes from it.
\<close>

datatype error =
    ErrEmptySQL
  | ErrSQLTooLarge
  | ErrFormatterClosed
  | Errorf string extError \<comment> \<open>\<^verbatim>\<open>fmt.Errorf("<text>: %w", err)\<close>\<close>
  | UnexpectedResultType string \<comment> \<open>\<^verbatim>\<open>fmt.Errorf("unexpected result type: %T", res)\<close>\<close>

text \<open>
  What the engine hands back as \<^verbatim>\<open>interface{}\<close>: a Go string, or a value of another
  dynamic type, of which the code uses only the type's name.
\<close>

datatype goValue = GoString string | GoOther string

text \<open>
  The engine (\<^verbatim>\<open>github.com/rosbit/go-quickjs\<close>) is an outside package, and the
  embedded bundle \<^verbatim>\<open>assets/sql-formatter.min.js\<close> is a text the wrapper hands to the
  engine without looking into it: both are parameters. A context is a value of type
  \<^typ>\<open>'c\<close> that each engine call may change.
\<close>

record 'c quickjs =
  jsCode :: string
  NewContext :: "extError + 'c"
  Eval :: "'c \<Rightarrow> string \<Rightarrow> (extError + goValue) \<times> 'c"
  CallFunc :: "'c \<Rightarrow> string \<Rightarrow> string list \<Rightarrow> (extError + goValue) \<times> 'c"

text \<open>The calls that leave the package, in the order they are made.\<close>

datatype event =
    CallNewContext
  | CallEval string
  | CallMarshal FormatOptions
  | CallCallFunc string "string list"

section \<open>The handle\<close>

text \<open>
  The mutex \<^verbatim>\<open>mu\<close> is not part of this sequential model: \<^verbatim>\<open>Format\<close> and
  \<^verbatim>\<open>Close\<close> lock it on entry and unlock it on every exit path, so it is free
  whenever one of them is entered.
\<close>

record 'c Formatter =
  ctx :: 'c
  closed :: bool

definition setupCode :: string where
  "setupCode =
     [CHR 0x0A, CHR 0x09, CHR 0x09] @ ''function formatSql(sql, optionsJson) {''
     @ [CHR 0x0A, CHR 0x09, CHR 0x09, CHR 0x09] @ ''const options = JSON.parse(optionsJson);''
     @ [CHR 0x0A, CHR 0x09, CHR 0x09, CHR 0x09] @ ''return sqlFormatter.format(sql, options);''
     @ [CHR 0x0A, CHR 0x09, CHR 0x09] @ ''}''
     @ [CHR 0x0A, CHR 0x09]"

definition initialize ::
  "'c quickjs \<Rightarrow> 'c Formatter \<Rightarrow> error option \<times> 'c Formatter \<times> event list" where
  "initialize js f =
     (case Eval js (ctx f) (jsCode js) of
        (Inl err, c1) \<Rightarrow>
          (Some (Errorf ''evaluating sql-formatter.min.js'' err), f\<lparr>ctx := c1\<rparr>,
           [CallEval (jsCode js)])
      | (Inr _, c1) \<Rightarrow>
          (case Eval js c1 setupCode of
             (Inl err, c2) \<Rightarrow>
               (Some (Errorf ''setting up formatSql function'' err), f\<lparr>ctx := c2\<rparr>,
                [CallEval (jsCode js), CallEval setupCode])
           | (Inr _, c2) \<Rightarrow>
               (None, f\<lparr>ctx := c2\<rparr>, [CallEval (jsCode js), CallEval setupCode])))"

definition NewFormatter :: "'c quickjs \<Rightarrow> (error + 'c Formatter) \<times> event list" where
  "NewFormatter js =
     (case NewContext js of
        Inl err \<Rightarrow> (Inl (Errorf ''creating QuickJS context'' err), [CallNewContext])
      | Inr c \<Rightarrow>
          (case initialize js \<lparr>ctx = c, closed = False\<rparr> of
             (Some err, f, evs) \<Rightarrow> (Inl err, CallNewContext # evs)
           | (None, f, evs) \<Rightarrow> (Inr f, CallNewContext # evs)))"

text \<open>
  \<^verbatim>\<open>func (f *Formatter) Format(sql string, options FormatOptions) (string, error)\<close>:
  the two results, the handle afterwards and the calls made.
\<close>

definition Formatter_Format ::
  "'c quickjs \<Rightarrow> 'c Formatter \<Rightarrow> string \<Rightarrow> FormatOptions
     \<Rightarrow> (string \<times> error option) \<times> 'c Formatter \<times> event list" where
  "Formatter_Format js f sql options =
     (if closed f then (('''', Some ErrFormatterClosed), f, [])
      else
        case json_Marshal options of
          Inl err \<Rightarrow> (('''', Some (Errorf ''marshaling options'' err)), f, [CallMarshal options])
        | Inr optionsJSON \<Rightarrow>
            (case CallFunc js (ctx f) ''formatSql'' [sql, optionsJSON] of
               (Inl err, c) \<Rightarrow>
                 (('''', Some (Errorf ''calling formatSql'' err)), f\<lparr>ctx := c\<rparr>,
                  [CallMarshal options, CallCallFunc ''formatSql'' [sql, optionsJSON]])
             | (Inr res, c) \<Rightarrow>
                 (case res of
                    GoOther t \<Rightarrow>
                      (('''', Some (UnexpectedResultType t)), f\<lparr>ctx := c\<rparr>,
                       [CallMarshal options, CallCallFunc ''formatSql'' [sql, optionsJSON]])
                  | GoString formatted \<Rightarrow>
                      ((ReplaceAllString formatted, None), f\<lparr>ctx := c\<rparr>,
                       [CallMarshal options, CallCallFunc ''formatSql'' [sql, optionsJSON]]))))"

text \<open>\<^verbatim>\<open>func (f *Formatter) Close() error\<close>.\<close>

definition Close :: "'c Formatter \<Rightarrow> error option \<times> 'c Formatter" where
  "Close f = (if closed f then (None, f) else (None, f\<lparr>closed := True\<rparr>))"

text \<open>
  The package-level \<^verbatim>\<open>Format\<close>. Its handle is not returned to the caller; the model
  returns it, as it is after the deferred \<^verbatim>\<open>Close\<close>, to make the effect visible.
\<close>

definition Format ::
  "'c quickjs \<Rightarrow> string \<Rightarrow> FormatOptions
     \<Rightarrow> (string \<times> error option) \<times> 'c Formatter option \<times> event list" where
  "Format js sql options =
     (case NewFormatter js of
        (Inl err, evs) \<Rightarrow> (('''', Some err), None, evs)
      | (Inr f, evs) \<Rightarrow>
          (case Formatter_Format js f sql options of
             (res, f1, evs1) \<Rightarrow>
               (case Close f1 of (_, f2) \<Rightarrow> (res, Some f2, evs @ evs1))))"

text \<open>
  A caller's use of one handle: a sequence of method calls, each on the handle as the
  one before left it, with the results of the calls in order.
\<close>

datatype call = CallFormat string FormatOptions | CallClose

datatype outcome = Formatted "string \<times> error option" | Closed "error option"

fun calls :: "'c quickjs \<Rightarrow> 'c Formatter \<Rightarrow> call list \<Rightarrow> outcome list \<times> 'c Formatter" where
  "calls js f [] = ([], f)"
| "calls js f (CallFormat sql options # cs) =
     (case Formatter_Format js f sql options of
        (res, f1, _) \<Rightarrow> (case calls js f1 cs of (rs, f2) \<Rightarrow> (Formatted res # rs, f2)))"
| "calls js f (CallClose # cs) =
     (case Close f of
        (err, f1) \<Rightarrow> (case calls js f1 cs of (rs, f2) \<Rightarrow> (Closed err # rs, f2)))"

text \<open>
  An engine for running the model on concrete inputs. Its context counts the calls made
  on it; \<^verbatim>\<open>formatSql\<close> answers with the text \<^verbatim>\<open>COUNT (x)\<close> and its first argument,
  with a value that is no string when that argument is empty, and with an error when
  the argument is \<^verbatim>\<open>bad\<close>.
\<close>

definition countingEngine :: "nat quickjs" where
  "countingEngine = \<lparr>
     jsCode = ''var sqlFormatter;'',
     NewContext = Inr 0,
     Eval = (\<lambda>c src. (Inr (GoOther ''<nil>''), Suc c)),
     CallFunc = (\<lambda>c name args.
       (case args of
          [] \<Rightarrow> Inl (ExtError ''no argument'')
        | a # _ \<Rightarrow>
            if a = [] then Inr (GoOther ''<nil>'')
            else if a = ''bad'' then Inl (ExtError ''Parse error'')
            else Inr (GoString (''COUNT (x) '' @ a)),
        Suc c)) \<rparr>"

text \<open>An engine that cannot make a context.\<close>

definition brokenEngine :: "nat quickjs" where
  "brokenEngine = countingEngine\<lparr>NewContext := Inl (ExtError ''out of memory'')\<rparr>"

text \<open>The declared constants of the four enumeration types.\<close>

definition enumTokens :: "string list" where
  "enumTokens =
     [CaseOptionPreserve, CaseOptionUpper, CaseOptionLower,
      LogicalOperatorNewlineBefore, LogicalOperatorNewlineAfter,
      IndentStyleStandard, IndentStyleTabularLeft, IndentStyleTabularRight,
      LanguageSQL, LanguageBigQuery, LanguageDB2, LanguageDB2i, LanguageDuckDB, LanguageHive,
      LanguageMariaDB, LanguageMySQL, LanguageTiDB, LanguageN1QL, LanguagePLSQL,
      LanguagePostgreSQL, LanguageRedshift, LanguageSingleStoreDB, LanguageSnowflake,
      LanguageSpark, LanguageSQLite, LanguageTransactSQL, LanguageTSQL, LanguageTrino]"

text \<open>The zero value of the struct.\<close>

definition zeroFormatOptions :: FormatOptions where
  "zeroFormatOptions = \<lparr>
     DataTypeCase = '''', DenseOperators = False, ExpressionWidth = 0, FunctionCase = '''',
     IdentifierCase = '''', IndentStyle = '''', KeywordCase = '''', Language = '''',
     LinesBetweenQueries = 0, LogicalOperatorNewline = '''', NewlineBeforeSemicolon = False,
     TabWidth = 0, UseTabs = False \<rparr>"

section \<open>Properties\<close>

subsection \<open>The text repair\<close>

lemma ReplaceAllString_short: "length src < 3 \<Longrightarrow> ReplaceAllString src = src"
  by (cases src rule: ReplaceAllString.cases) simp_all

lemma ReplaceAllString_length: "length (ReplaceAllString src) \<le> length src"
  by (induction src rule: ReplaceAllString.induct) auto

text \<open>The bytes that are not white space are all kept, in their order.\<close>

lemma ReplaceAllString_keeps_text:
  "filter (\<lambda>c. \<not> perlSpace c) (ReplaceAllString src) = filter (\<lambda>c. \<not> perlSpace c) src"
proof (induction src rule: ReplaceAllString.induct)
  case (1 c s p rest)
  have "\<not> perlSpace (CHR ''('')"
    by (simp add: perlSpace_def)
  with 1 show ?case
    by (auto simp: spaceBeforeParenMatch_def)
qed simp_all

text \<open>A white-space byte never starts a match, so it is copied and the search goes on behind it.\<close>

lemma perlSpace_newline: "perlSpace newline"
  by (simp add: perlSpace_def newline_def)

lemma ReplaceAllString_after_space:
  "perlSpace c \<Longrightarrow> ReplaceAllString (c # src) = c # ReplaceAllString src"
  by (cases "c # src" rule: ReplaceAllString.cases) (auto simp: spaceBeforeParenMatch_def)

lemmas ReplaceAllString_after_newline = ReplaceAllString_after_space [OF perlSpace_newline]

text \<open>
  Where the newline does not stand between a byte that is no white space and a
  parenthesis, the text before it and the text after it are repaired independently.
\<close>

lemma ReplaceAllString_lines_one:
  assumes "l2 = [] \<or> hd l2 \<noteq> CHR ''('' \<or> perlSpace v"
  shows "ReplaceAllString (v # newline # l2) = v # newline # ReplaceAllString l2"
proof -
  have "\<not> spaceBeforeParenMatch v newline x" if "l2 = x # xs" for x xs
    using assms that by (auto simp: spaceBeforeParenMatch_def)
  then show ?thesis
    by (cases l2) (simp_all add: ReplaceAllString_after_newline)
qed

lemma no_match_ends_in_newline: "\<not> spaceBeforeParenMatch v va newline"
  by (simp add: spaceBeforeParenMatch_def newline_def)

lemma ReplaceAllString_lines_two:
  assumes "l2 = [] \<or> hd l2 \<noteq> CHR ''('' \<or> perlSpace va"
  shows "ReplaceAllString (v # va # newline # l2) = v # va # newline # ReplaceAllString l2"
  by (simp add: no_match_ends_in_newline ReplaceAllString_lines_one [OF assms])

lemma ReplaceAllString_lines:
  assumes "l2 = [] \<or> hd l2 \<noteq> CHR ''('' \<or> l1 = [] \<or> perlSpace (last l1)"
  shows "ReplaceAllString (l1 @ newline # l2) = ReplaceAllString l1 @ newline # ReplaceAllString l2"
  using assms
proof (induction l1 rule: ReplaceAllString.induct)
  case (1 c s p rest)
  show ?case
  proof (cases "spaceBeforeParenMatch c s p")
    case True
    show ?thesis
    proof (cases "rest = []")
      case True
      with \<open>spaceBeforeParenMatch c s p\<close> show ?thesis
        by (simp add: ReplaceAllString_after_newline)
    next
      case False
      with 1 True show ?thesis by simp
    qed
  next
    case False
    with 1 show ?thesis by simp
  qed
qed (simp_all add: ReplaceAllString_after_newline ReplaceAllString_lines_one
    no_match_ends_in_newline)

text \<open>A space that begins a line is kept, and the rest of the line is repaired on its own.\<close>

lemma ReplaceAllString_line_start:
  "ReplaceAllString (l1 @ newline # CHR '' '' # l2)
     = ReplaceAllString l1 @ newline # CHR '' '' # ReplaceAllString l2"
  by (simp add: ReplaceAllString_lines ReplaceAllString_after_space perlSpace_def)

text \<open>Inside a line, the space between a byte that is no white space and a parenthesis goes.\<close>

lemma ReplaceAllString_match:
  "\<not> perlSpace c \<Longrightarrow>
     ReplaceAllString (c # CHR '' '' # CHR ''('' # rest) = c # CHR ''('' # ReplaceAllString rest"
  by (auto simp: spaceBeforeParenMatch_def perlSpace_def newline_def)

text \<open>
  C1 (the text repair removes a space before a parenthesis inside a line, keeps a space
  that begins a line, works line by line and never touches a match that spans a line
  boundary). The pattern's \<^verbatim>\<open>\s\<close> also matches a newline: on the two lines
  \<^verbatim>\<open>UNION\<close> and \<^verbatim>\<open>(\<close> the byte removed is the newline between them, and the lines are
  joined. A tab before a parenthesis is removed as a space is. Of two matches that
  share a parenthesis only the first is replaced. A space after a letter is removed,
  and the space that begins a line is kept.
\<close>

theorem ReplaceAllString_joins_lines:
  "ReplaceAllString (''UNION'' @ [newline] @ ''('' @ [newline] @ ''    SELECT'')
     = ''UNION('' @ [newline] @ ''    SELECT''
   \<and> ReplaceAllString (''a'' @ [newline] @ ''('') = ''a(''
   \<and> ReplaceAllString (''a'' @ [CHR 0x09] @ ''('') = ''a(''
   \<and> ReplaceAllString ''f ( (x))'' = ''f( (x))''
   \<and> ReplaceAllString ''COUNT (x)'' = ''COUNT(x)''
   \<and> ReplaceAllString (''a'' @ [newline] @ '' ('') = ''a'' @ [newline] @ '' (''"
  by (simp add: spaceBeforeParenMatch_def perlSpace_def newline_def)

subsection \<open>The handle\<close>

lemma json_Marshal_succeeds: "\<exists>optionsJSON. json_Marshal options = Inr optionsJSON"
  by (simp add: json_Marshal_def json_MarshalWith_def)

lemma Close_returns_nil: "fst (Close f) = None"
  by (simp add: Close_def)

lemma Close_sets_closed: "closed (snd (Close f))"
  by (simp add: Close_def)

lemma Close_keeps_ctx: "ctx (snd (Close f)) = ctx f"
  by (simp add: Close_def)

lemma Close_when_closed: "closed f \<Longrightarrow> Close f = (None, f)"
  by (simp add: Close_def)

lemma Format_when_closed:
  "closed f \<Longrightarrow> Formatter_Format js f sql options = (('''', Some ErrFormatterClosed), f, [])"
  by (simp add: Formatter_Format_def)

lemma calls_when_closed:
  "closed f \<Longrightarrow>
     calls js f cs =
       (map (\<lambda>c. case c of CallFormat sql options \<Rightarrow> Formatted ('''', Some ErrFormatterClosed)
                          | CallClose \<Rightarrow> Closed None) cs, f)"
proof (induction cs)
  case Nil
  show ?case by simp
next
  case (Cons c cs)
  then show ?case
    by (cases c) (simp_all add: Format_when_closed Close_when_closed)
qed

lemma Format_when_open:
  assumes "\<not> closed f" and "json_Marshal options = Inr optionsJSON"
  shows "snd (snd (Formatter_Format js f sql options))
           = [CallMarshal options, CallCallFunc ''formatSql'' [sql, optionsJSON]]"
    and "closed (fst (snd (Formatter_Format js f sql options))) = False"
  using assms by (auto simp: Formatter_Format_def split: prod.splits sum.splits goValue.splits)

lemma Format_error_cases:
  "snd (fst (Formatter_Format js f sql options)) = None
   \<or> (fst (fst (Formatter_Format js f sql options)) = ''''
      \<and> (snd (fst (Formatter_Format js f sql options)) = Some ErrFormatterClosed \<and> closed f
         \<or> (\<exists>t e. snd (fst (Formatter_Format js f sql options)) = Some (Errorf t e))
         \<or> (\<exists>t. snd (fst (Formatter_Format js f sql options)) = Some (UnexpectedResultType t))))"
  by (auto simp: Formatter_Format_def split: prod.splits sum.splits goValue.splits)

lemma initialize_keeps_open:
  "initialize js f = (r, f', evs) \<Longrightarrow> closed f' = closed f \<and> set evs \<subseteq> range CallEval"
  by (auto simp: initialize_def split: prod.splits sum.splits)

lemma NewFormatter_open:
  "NewFormatter js = (Inr f, evs) \<Longrightarrow> \<not> closed f \<and> set evs \<subseteq> insert CallNewContext (range CallEval)"
  by (auto simp: NewFormatter_def split: prod.splits sum.splits option.splits dest!: initialize_keeps_open)

lemma NewFormatter_events:
  "set (snd (NewFormatter js)) \<subseteq> insert CallNewContext (range CallEval)"
  by (auto simp: NewFormatter_def split: prod.splits sum.splits option.splits dest!: initialize_keeps_open)

lemma NewFormatter_error:
  "NewFormatter js = (Inl err, evs) \<Longrightarrow> \<exists>t e. err = Errorf t e"
  by (auto simp: NewFormatter_def initialize_def split: prod.splits sum.splits option.splits)

text \<open>
  C2 (a call on a closed handle fails with the closed-handle error, without engine
  access). Once \<^verbatim>\<open>Close\<close> has been called on a handle, and whatever calls were made on
  it since, \<^verbatim>\<open>Format\<close> returns the empty string and \<^verbatim>\<open>ErrFormatterClosed\<close> for every
  SQL text and every option value, leaves the handle and its engine context as they
  were, and makes no call out of the package: no option serialization and no engine
  call.
\<close>

theorem Format_after_Close_fails_without_engine:
  "Formatter_Format js (snd (calls js (snd (Close f)) cs)) sql options
     = (('''', Some ErrFormatterClosed), snd (Close f), [])"
  by (simp add: calls_when_closed Close_sets_closed Format_when_closed)

theorem Format_after_Close_fails_without_engine_witness:
  "Formatter_Format countingEngine
       (snd (calls countingEngine (snd (Close \<lparr>ctx = 2, closed = False\<rparr>))
          [CallFormat ''select 1'' DefaultFormatOptions, CallClose]))
       ''select count (*) from t'' DefaultFormatOptions
     = (('''', Some ErrFormatterClosed), \<lparr>ctx = 2, closed = True\<rparr>, [])"
  using Format_after_Close_fails_without_engine
    [of countingEngine "\<lparr>ctx = 2, closed = False\<rparr>"
        "[CallFormat ''select 1'' DefaultFormatOptions, CallClose]"
        "''select count (*) from t''" DefaultFormatOptions]
  by (simp add: Close_def)

text \<open>
  C3 (Close is idempotent and permanent). \<^verbatim>\<open>Close\<close> returns nil and leaves the handle
  closed, with its engine context untouched; on a closed handle it returns nil and
  changes nothing; and after a \<^verbatim>\<open>Close\<close>, whatever sequence of \<^verbatim>\<open>Format\<close> and
  \<^verbatim>\<open>Close\<close> calls follows, every \<^verbatim>\<open>Format\<close> fails with \<^verbatim>\<open>ErrFormatterClosed\<close>,
  every \<^verbatim>\<open>Close\<close> returns nil, and the handle stays as the first \<^verbatim>\<open>Close\<close> left it.
\<close>

theorem Close_idempotent_permanent:
  "fst (Close f) = None
   \<and> closed (snd (Close f))
   \<and> ctx (snd (Close f)) = ctx f
   \<and> Close (snd (Close f)) = (None, snd (Close f))
   \<and> (closed f \<longrightarrow> Close f = (None, f))
   \<and> calls js (snd (Close f)) cs
       = (map (\<lambda>c. case c of
                      CallFormat sql options \<Rightarrow> Formatted ('''', Some ErrFormatterClosed)
                    | CallClose \<Rightarrow> Closed None) cs,
          snd (Close f))"
  by (simp add: Close_returns_nil Close_sets_closed Close_keeps_ctx Close_when_closed
      calls_when_closed)

theorem Close_idempotent_permanent_witness:
  "closed \<lparr>ctx = 2::nat, closed = True\<rparr>
   \<and> Close \<lparr>ctx = 2::nat, closed = True\<rparr> = (None, \<lparr>ctx = 2, closed = True\<rparr>)
   \<and> calls countingEngine (snd (Close \<lparr>ctx = 2, closed = True\<rparr>))
        [CallClose, CallFormat ''select 1'' DefaultFormatOptions, CallClose]
       = ([Closed None, Formatted ('''', Some ErrFormatterClosed), Closed None],
          \<lparr>ctx = 2, closed = True\<rparr>)"
  using Close_idempotent_permanent
    [of "\<lparr>ctx = 2::nat, closed = True\<rparr>" countingEngine
        "[CallClose, CallFormat ''select 1'' DefaultFormatOptions, CallClose]"]
  by (simp add: Close_def)

text \<open>
  C9 (an error comes with the empty string). Whenever the handle-level \<^verbatim>\<open>Format\<close>
  returns a non-nil error, on whichever path, the string beside it is empty; so a
  non-empty string is returned only with a nil error.
\<close>

theorem Format_error_has_empty_string:
  "(snd (fst (Formatter_Format js f sql options)) \<noteq> None
      \<longrightarrow> fst (fst (Formatter_Format js f sql options)) = '''')
   \<and> (fst (fst (Formatter_Format js f sql options)) \<noteq> ''''
      \<longrightarrow> snd (fst (Formatter_Format js f sql options)) = None)"
  using Format_error_cases [of js f sql options] by auto

theorem Format_error_has_empty_string_witness:
  "snd (fst (Formatter_Format countingEngine \<lparr>ctx = 2, closed = False\<rparr> ''bad''
              DefaultFormatOptions)) \<noteq> None
   \<and> fst (fst (Formatter_Format countingEngine \<lparr>ctx = 2, closed = False\<rparr> ''bad''
              DefaultFormatOptions)) = ''''
   \<and> fst (fst (Formatter_Format countingEngine \<lparr>ctx = 2, closed = False\<rparr> ''x''
              DefaultFormatOptions)) \<noteq> ''''
   \<and> snd (fst (Formatter_Format countingEngine \<lparr>ctx = 2, closed = False\<rparr> ''x''
              DefaultFormatOptions)) = None"
  using Format_error_has_empty_string
      [of countingEngine "\<lparr>ctx = 2, closed = False\<rparr>" "''bad''" DefaultFormatOptions]
    Format_error_has_empty_string
      [of countingEngine "\<lparr>ctx = 2, closed = False\<rparr>" "''x''" DefaultFormatOptions]
  by (simp add: Formatter_Format_def json_Marshal_def json_MarshalWith_def countingEngine_def)

lemma Format_pkg_error_cases:
  "snd (fst (Format js sql options)) = None
   \<or> (\<exists>t e. snd (fst (Format js sql options)) = Some (Errorf t e))
   \<or> (\<exists>t. snd (fst (Format js sql options)) = Some (UnexpectedResultType t))"
proof (cases "NewFormatter js")
  case (Pair r evs)
  show ?thesis
  proof (cases r)
    case (Inl err)
    with Pair NewFormatter_error [of js err evs] show ?thesis
      by (auto simp: Format_def)
  next
    case (Inr f)
    with Pair NewFormatter_open [of js f evs] have "\<not> closed f"
      by simp
    with Format_error_cases [of js f sql options] Pair Inr show ?thesis
      by (auto simp: Format_def split: prod.splits)
  qed
qed

lemma Format_pkg_created:
  assumes "NewFormatter js = (Inr f, evs)"
  shows "Format js sql options
           = (fst (Formatter_Format js f sql options),
              Some (snd (Close (fst (snd (Formatter_Format js f sql options))))),
              evs @ snd (snd (Formatter_Format js f sql options)))"
  using assms by (simp add: Format_def split: prod.splits)

lemma Format_pkg_not_created:
  "NewFormatter js = (Inl err, evs) \<Longrightarrow> Format js sql options = (('''', Some err), None, evs)"
  by (simp add: Format_def)

subsection \<open>The one-shot call\<close>

text \<open>
  C4 (the package-level Format creates, calls once, closes, and returns the call's
  result). When the handle cannot be created, the creation error is returned with the
  empty string and nothing is serialized or sent to \<^verbatim>\<open>formatSql\<close>. When it is
  created, the two results are those of one handle-level \<^verbatim>\<open>Format\<close> on that handle,
  whether that call failed or not; the calls made after the creation are the one
  serialization and the one engine call of that \<^verbatim>\<open>Format\<close>; and the handle is left
  closed, as \<^verbatim>\<open>Close\<close> leaves the handle that the call returned.
\<close>

theorem Format_one_shot:
  "(\<forall>err evs. NewFormatter js = (Inl err, evs) \<longrightarrow>
       Format js sql options = (('''', Some err), None, evs)
       \<and> set evs \<subseteq> insert CallNewContext (range CallEval))
   \<and> (\<forall>f evs. NewFormatter js = (Inr f, evs) \<longrightarrow>
       fst (Format js sql options) = fst (Formatter_Format js f sql options)
       \<and> fst (snd (Format js sql options))
           = Some (snd (Close (fst (snd (Formatter_Format js f sql options)))))
       \<and> (\<exists>h. fst (snd (Format js sql options)) = Some h \<and> closed h)
       \<and> set evs \<subseteq> insert CallNewContext (range CallEval)
       \<and> (\<exists>optionsJSON. json_Marshal options = Inr optionsJSON
            \<and> snd (snd (Format js sql options))
                = evs @ [CallMarshal options, CallCallFunc ''formatSql'' [sql, optionsJSON]]))"
proof (intro conjI allI impI)
  fix err evs
  assume a: "NewFormatter js = (Inl err, evs)"
  show "Format js sql options = (('''', Some err), None, evs)"
    using a by (rule Format_pkg_not_created)
  show "set evs \<subseteq> insert CallNewContext (range CallEval)"
    using NewFormatter_events [of js] a by simp
next
  fix f evs
  assume a: "NewFormatter js = (Inr f, evs)"
  note eq = Format_pkg_created [OF a, of sql options]
  show "fst (Format js sql options) = fst (Formatter_Format js f sql options)"
    by (simp add: eq)
  show "fst (snd (Format js sql options))
          = Some (snd (Close (fst (snd (Formatter_Format js f sql options)))))"
    by (simp add: eq)
  show "\<exists>h. fst (snd (Format js sql options)) = Some h \<and> closed h"
    by (simp add: eq Close_sets_closed)
  show "set evs \<subseteq> insert CallNewContext (range CallEval)"
    using NewFormatter_open [OF a] by simp
  from json_Marshal_succeeds obtain optionsJSON where j: "json_Marshal options = Inr optionsJSON"
    by blast
  have "\<not> closed f"
    using NewFormatter_open [OF a] by simp
  then have "snd (snd (Format js sql options))
               = evs @ [CallMarshal options, CallCallFunc ''formatSql'' [sql, optionsJSON]]"
    using Format_when_open(1) [of f options optionsJSON js sql] j by (simp add: eq)
  with j show "\<exists>optionsJSON. json_Marshal options = Inr optionsJSON
      \<and> snd (snd (Format js sql options))
          = evs @ [CallMarshal options, CallCallFunc ''formatSql'' [sql, optionsJSON]]"
    by blast
qed

theorem Format_one_shot_witness:
  "NewFormatter countingEngine
     = (Inr \<lparr>ctx = 2, closed = False\<rparr>,
        [CallNewContext, CallEval ''var sqlFormatter;'', CallEval setupCode])
   \<and> fst (Format countingEngine ''select count (*)'' DefaultFormatOptions)
       = (''COUNT(x) select count(*)'', None)
   \<and> fst (snd (Format countingEngine ''select count (*)'' DefaultFormatOptions))
       = Some \<lparr>ctx = 3, closed = True\<rparr>
   \<and> fst (Format countingEngine ''bad'' DefaultFormatOptions)
       = ('''', Some (Errorf ''calling formatSql'' (ExtError ''Parse error'')))
   \<and> fst (snd (Format countingEngine ''bad'' DefaultFormatOptions))
       = Some \<lparr>ctx = 3, closed = True\<rparr>
   \<and> NewFormatter brokenEngine
       = (Inl (Errorf ''creating QuickJS context'' (ExtError ''out of memory'')),
          [CallNewContext])
   \<and> Format brokenEngine ''select 1'' DefaultFormatOptions
       = (('''', Some (Errorf ''creating QuickJS context'' (ExtError ''out of memory''))),
          None, [CallNewContext])"
  using Format_one_shot [of countingEngine "''select count (*)''" DefaultFormatOptions]
    Format_one_shot [of countingEngine "''bad''" DefaultFormatOptions]
    Format_one_shot [of brokenEngine "''select 1''" DefaultFormatOptions]
  by (simp add: NewFormatter_def initialize_def countingEngine_def brokenEngine_def
      Formatter_Format_def json_Marshal_def json_MarshalWith_def Close_def
      spaceBeforeParenMatch_def perlSpace_def newline_def)

text \<open>
  C10 (the one-shot call never fails with the closed-handle error). The handle that
  \<^verbatim>\<open>NewFormatter\<close> returns is open, the result of the package-level \<^verbatim>\<open>Format\<close> is
  that of the one call on it, and that result is never \<^verbatim>\<open>ErrFormatterClosed\<close>.
\<close>

theorem package_Format_never_ErrFormatterClosed:
  "snd (fst (Format js sql options)) \<noteq> Some ErrFormatterClosed
   \<and> (\<forall>f evs. NewFormatter js = (Inr f, evs) \<longrightarrow>
        \<not> closed f
        \<and> fst (Format js sql options) = fst (Formatter_Format js f sql options)
        \<and> snd (fst (Formatter_Format js f sql options)) \<noteq> Some ErrFormatterClosed)"
proof (intro conjI allI impI)
  show "snd (fst (Format js sql options)) \<noteq> Some ErrFormatterClosed"
    using Format_pkg_error_cases [of js sql options] by auto
next
  fix f evs
  assume a: "NewFormatter js = (Inr f, evs)"
  show "\<not> closed f"
    using NewFormatter_open [OF a] by simp
  then show "snd (fst (Formatter_Format js f sql options)) \<noteq> Some ErrFormatterClosed"
    using Format_error_cases [of js f sql options] by auto
  show "fst (Format js sql options) = fst (Formatter_Format js f sql options)"
    by (simp add: Format_pkg_created [OF a])
qed

theorem package_Format_never_ErrFormatterClosed_witness:
  "NewFormatter countingEngine
     = (Inr \<lparr>ctx = 2, closed = False\<rparr>,
        [CallNewContext, CallEval ''var sqlFormatter;'', CallEval setupCode])
   \<and> \<not> closed \<lparr>ctx = 2::nat, closed = False\<rparr>
   \<and> fst (Format countingEngine '''' DefaultFormatOptions)
       = ('''', Some (UnexpectedResultType ''<nil>''))
   \<and> snd (fst (Format countingEngine '''' DefaultFormatOptions)) \<noteq> Some ErrFormatterClosed"
  using package_Format_never_ErrFormatterClosed [of countingEngine "''''" DefaultFormatOptions]
  by (simp add: NewFormatter_def initialize_def countingEngine_def
      Formatter_Format_def json_Marshal_def json_MarshalWith_def)

text \<open>
  C6 (the empty-input and too-large sentinels are never returned). Neither the
  handle-level nor the package-level \<^verbatim>\<open>Format\<close> returns \<^verbatim>\<open>ErrEmptySQL\<close> or
  \<^verbatim>\<open>ErrSQLTooLarge\<close>, for any SQL text; and on an open handle the SQL text, empty or
  of any length, is passed to the engine as it is.
\<close>

theorem Format_never_empty_or_too_large:
  "snd (fst (Formatter_Format js f sql options)) \<noteq> Some ErrEmptySQL
   \<and> snd (fst (Formatter_Format js f sql options)) \<noteq> Some ErrSQLTooLarge
   \<and> snd (fst (Format js sql options)) \<noteq> Some ErrEmptySQL
   \<and> snd (fst (Format js sql options)) \<noteq> Some ErrSQLTooLarge
   \<and> (\<not> closed f \<longrightarrow>
        (\<exists>optionsJSON. snd (snd (Formatter_Format js f sql options))
            = [CallMarshal options, CallCallFunc ''formatSql'' [sql, optionsJSON]]))"
proof -
  have 1: "snd (fst (Formatter_Format js f sql options)) \<noteq> Some ErrEmptySQL"
    and 2: "snd (fst (Formatter_Format js f sql options)) \<noteq> Some ErrSQLTooLarge"
    using Format_error_cases [of js f sql options] by auto
  have 3: "snd (fst (Format js sql options)) \<noteq> Some ErrEmptySQL"
    and 4: "snd (fst (Format js sql options)) \<noteq> Some ErrSQLTooLarge"
    using Format_pkg_error_cases [of js sql options] by auto
  have 5: "\<exists>optionsJSON. snd (snd (Formatter_Format js f sql options))
            = [CallMarshal options, CallCallFunc ''formatSql'' [sql, optionsJSON]]"
    if "\<not> closed f"
    using json_Marshal_succeeds [of options] Format_when_open(1) [OF that] by blast
  from 1 2 3 4 5 show ?thesis
    by blast
qed

theorem Format_never_empty_or_too_large_witness:
  "\<not> closed \<lparr>ctx = 2::nat, closed = False\<rparr>
   \<and> Formatter_Format countingEngine \<lparr>ctx = 2, closed = False\<rparr> '''' DefaultFormatOptions
       = (('''', Some (UnexpectedResultType ''<nil>'')), \<lparr>ctx = 3, closed = False\<rparr>,
          [CallMarshal DefaultFormatOptions,
           CallCallFunc ''formatSql''
             ['''', ''{'' @ joinComma (map (encodeMember False) (objectMembers DefaultFormatOptions)) @ ''}'']])
   \<and> snd (fst (Formatter_Format countingEngine \<lparr>ctx = 2, closed = False\<rparr> ''''
        DefaultFormatOptions)) \<noteq> Some ErrEmptySQL"
  using Format_never_empty_or_too_large
    [of countingEngine "\<lparr>ctx = 2, closed = False\<rparr>" "''''" DefaultFormatOptions]
  by (simp add: Formatter_Format_def json_Marshal_def json_MarshalWith_def countingEngine_def)

subsection \<open>The options\<close>

lemmas token_defs =
  CaseOptionPreserve_def CaseOptionUpper_def CaseOptionLower_def
  LogicalOperatorNewlineBefore_def LogicalOperatorNewlineAfter_def
  IndentStyleStandard_def IndentStyleTabularLeft_def IndentStyleTabularRight_def
  LanguageSQL_def LanguageBigQuery_def LanguageDB2_def LanguageDB2i_def LanguageDuckDB_def
  LanguageHive_def LanguageMariaDB_def LanguageMySQL_def LanguageTiDB_def LanguageN1QL_def
  LanguagePLSQL_def LanguagePostgreSQL_def LanguageRedshift_def LanguageSingleStoreDB_def
  LanguageSnowflake_def LanguageSpark_def LanguageSQLite_def LanguageTransactSQL_def
  LanguageTSQL_def LanguageTrino_def

lemma appendString_htmlSafe: "\<forall>c \<in> set s. htmlSafe c \<Longrightarrow> appendString esc s = s"
  by (induction s) (simp_all add: htmlSafe_def)

lemma htmlSafe_plain:
  "32 \<le> (of_char c :: nat) \<Longrightarrow> (of_char c :: nat) < 128 \<Longrightarrow>
     c \<notin> {CHR 0x22, CHR 0x5C, CHR ''<'', CHR ''>'', CHR ''&''} \<Longrightarrow> htmlSafe c"
  by (simp add: htmlSafe_def byte_def dquote_def backslash_def)






lemma appendString_plain:
  "\<forall>c \<in> set t. 32 \<le> (of_char c :: nat) \<and> (of_char c :: nat) < 128
      \<and> c \<notin> {CHR 0x22, CHR 0x5C, CHR ''<'', CHR ''>'', CHR ''&''}
   \<Longrightarrow> appendString esc t = t"
  by (rule appendString_htmlSafe) (simp add: htmlSafe_plain)

text \<open>The declared constants are written as they are.\<close>

lemma appendString_token: "t \<in> set enumTokens \<Longrightarrow> appendString esc t = t"
  by (rule appendString_plain) (auto simp: enumTokens_def token_defs)

lemma json_Marshal_zero: "json_Marshal zeroFormatOptions = Inr ''{}''"
  by code_simp

text \<open>The two encoder generations on a byte that is not UTF-8.\<close>

lemma json_Marshal_invalid_UTF8:
  "json_MarshalWith False (zeroFormatOptions\<lparr>Language := [CHR 0xFF]\<rparr>)
     = Inr (''{'' @ [CHR 0x22] @ ''language'' @ [CHR 0x22] @ '':''
            @ [CHR 0x22, CHR 0xEF, CHR 0xBF, CHR 0xBD, CHR 0x22] @ ''}'')
   \<and> json_MarshalWith True (zeroFormatOptions\<lparr>Language := [CHR 0xFF]\<rparr>)
     = Inr (''{'' @ [CHR 0x22] @ ''language'' @ [CHR 0x22] @ '':''
            @ [CHR 0x22, CHR 0x5C] @ ''ufffd'' @ [CHR 0x22] @ ''}'')"
  by code_simp





text \<open>
  C7 (the default options). \<^verbatim>\<open>DefaultFormatOptions\<close> has upper case for keywords,
  functions and data types, preserved identifier case, the standard indent style with
  a tab width of 4 and tabs off, the language \<^verbatim>\<open>sql\<close>, 2 lines between queries and a
  newline before the semicolon; its other fields are an expression width of 80, dense
  operators off and the logical operator newline \<^verbatim>\<open>after\<close>.
\<close>

theorem DefaultFormatOptions_values:
  "KeywordCase DefaultFormatOptions = CaseOptionUpper
   \<and> FunctionCase DefaultFormatOptions = CaseOptionUpper
   \<and> DataTypeCase DefaultFormatOptions = CaseOptionUpper
   \<and> CaseOptionUpper = ''upper''
   \<and> IdentifierCase DefaultFormatOptions = CaseOptionPreserve
   \<and> CaseOptionPreserve = ''preserve''
   \<and> IndentStyle DefaultFormatOptions = IndentStyleStandard
   \<and> IndentStyleStandard = ''standard''
   \<and> TabWidth DefaultFormatOptions = 4
   \<and> UseTabs DefaultFormatOptions = False
   \<and> Language DefaultFormatOptions = LanguageSQL
   \<and> LanguageSQL = ''sql''
   \<and> LinesBetweenQueries DefaultFormatOptions = 2
   \<and> NewlineBeforeSemicolon DefaultFormatOptions = True
   \<and> ExpressionWidth DefaultFormatOptions = 80
   \<and> DenseOperators DefaultFormatOptions = False
   \<and> LogicalOperatorNewline DefaultFormatOptions = LogicalOperatorNewlineAfter
   \<and> LogicalOperatorNewlineAfter = ''after''"
  by (simp add: DefaultFormatOptions_def CaseOptionUpper_def CaseOptionPreserve_def
      IndentStyleStandard_def LanguageSQL_def LogicalOperatorNewlineAfter_def)

end
